theory Spec2Isabelle
  imports Complex_Main
begin

section \<open>Hybrid A* open-space planner: data model\<close>

text \<open>
  The embedding follows \<^verbatim>\<open>modules/planning/open_space/hybrid_a_star.cc\<close>.
  A C++ \<^verbatim>\<open>double\<close> is read as a \<^typ>\<open>real\<close>: the model is exact for runs in which no
  floating-point operation rounds, overflows or divides by zero. A \<^verbatim>\<open>std::size_t\<close> is a
  \<^typ>\<open>nat\<close>; where the source subtracts two of them the wrap-around modulo \<open>2^64\<close> is
  written out (\<open>size_t_sub\<close>). Reads that C++ leaves undefined (a null
  \<^verbatim>\<open>shared_ptr\<close>, \<^verbatim>\<open>back()\<close> of an empty vector, an index past the end) are
  values of the type \<open>fault\<close>. \<open>NoReturn\<close> stands for a loop of the program that has no
  end. \<open>FuelExhausted\<close> is not a behaviour of the program but the bound of the model: on
  the passes of the search loop, and on the passes of the integration loop of one motion
  primitive, which the model follows up to \<open>2^53\<close>, as far as the counter converts to a
  \<^verbatim>\<open>double\<close> without rounding.
\<close>

datatype fault = NullDeref | OutOfRange | NoReturn | FuelExhausted

text \<open>A \<^verbatim>\<open>double\<close> that need not be a number.\<close>

datatype machine_double = Finite real | PlusInfinity | MinusInfinity | NotANumber

definition size_t_sub :: "nat \<Rightarrow> nat \<Rightarrow> nat" where
  "size_t_sub m n = (m + 2 ^ 64 - n) mod 2 ^ 64"

text \<open>The members the constructor of \<^verbatim>\<open>HybridAStar\<close> copies from the configuration and
  the vehicle parameters.\<close>

record config =
  next_node_num :: nat
  max_steer :: real
  step_size :: real
  xy_grid_resolution :: real
  back_penalty :: real
  gear_switch_penalty :: real
  steer_penalty :: real
  steer_change_penalty :: real
  delta_t :: real
  wheel_base :: real

text \<open>\<^verbatim>\<open>ReedSheppPath\<close>: the fields this file reads. The fields \<^verbatim>\<open>x\<close>, \<^verbatim>\<open>y\<close>,
  \<^verbatim>\<open>phi\<close> carry a prefix, since a record field is a constant of the theory.\<close>

record ReedSheppPath =
  rsp_x :: "real list"
  rsp_y :: "real list"
  rsp_phi :: "real list"
  segs_lengths :: "real list"
  segs_types :: string

text \<open>\<^verbatim>\<open>Result\<close>, with the same prefixing.\<close>

record Result =
  res_x :: "real list"
  res_y :: "real list"
  res_phi :: "real list"
  res_v :: "real list"
  res_a :: "real list"
  res_steer :: "real list"

text \<open>\<^verbatim>\<open>Node3d\<close>. The parent pointer is the parent itself: a node is never written
  after a child points to it, so sharing cannot be observed.\<close>

datatype Node3d = Node3d
  (GetX: real) (GetY: real) (GetPhi: real)
  (GetXs: "real list") (GetYs: "real list") (GetPhis: "real list")
  (GetIndex: nat) (GetPreNode: "Node3d option")
  (GetDirec: bool) (GetSteer: real) (GetTrajCost: real) (GetHeuCost: real)

fun SetPre :: "Node3d \<Rightarrow> Node3d \<Rightarrow> Node3d" where
  "SetPre p (Node3d px py pphi pxs pys pphis i pre d s g h) =
     Node3d px py pphi pxs pys pphis i (Some p) d s g h"

fun SetDirec :: "bool \<Rightarrow> Node3d \<Rightarrow> Node3d" where
  "SetDirec d' (Node3d px py pphi pxs pys pphis i pre d s g h) =
     Node3d px py pphi pxs pys pphis i pre d' s g h"

fun SetSteer :: "real \<Rightarrow> Node3d \<Rightarrow> Node3d" where
  "SetSteer s' (Node3d px py pphi pxs pys pphis i pre d s g h) =
     Node3d px py pphi pxs pys pphis i pre d s' g h"

fun SetTrajCost :: "real \<Rightarrow> Node3d \<Rightarrow> Node3d" where
  "SetTrajCost g' (Node3d px py pphi pxs pys pphis i pre d s g h) =
     Node3d px py pphi pxs pys pphis i pre d s g' h"

fun SetHeuCost :: "real \<Rightarrow> Node3d \<Rightarrow> Node3d" where
  "SetHeuCost h' (Node3d px py pphi pxs pys pphis i pre d s g h) =
     Node3d px py pphi pxs pys pphis i pre d s g h'"

text \<open>Modelled from the spec: \<^verbatim>\<open>Node3d::GetCost\<close> (the class is declared outside the
  sources at hand); the spec gives \<open>f = traj_cost + heu_cost\<close>.\<close>

definition GetCost :: "Node3d \<Rightarrow> real" where
  "GetCost n = GetTrajCost n + GetHeuCost n"

text \<open>
  The collaborators whose code is not part of the sources are parameters of the model:
  the grid hash of \<^verbatim>\<open>Node3d\<close> (a function of the bounds and the pose), the overlap test
  between the vehicle box at a pose and one obstacle, the Reeds-Shepp generator
  (\<open>None\<close> when \<^verbatim>\<open>ShortestRSP\<close> returns false), \<^verbatim>\<open>NormalizeAngle\<close>, and the values a
  freshly constructed \<^verbatim>\<open>Node3d\<close> has in the fields its constructor does not receive.
  So is the one place where the rounding of the machine decides how often a loop runs:
  \<open>double_arc_by_step r s\<close> is the \<^verbatim>\<open>double\<close> the machine obtains for
  \<^verbatim>\<open>std::sqrt(2) * xy_grid_resolution_ / step_size_\<close> when the two members are \<open>r\<close> and
  \<open>s\<close>, the value the integration loop compares its counter with.
\<close>

record 'o collaborators =
  NodeIndex :: "real list \<Rightarrow> real \<Rightarrow> real \<Rightarrow> real \<Rightarrow> nat"
  HasOverlap :: "real \<Rightarrow> real \<Rightarrow> real \<Rightarrow> 'o \<Rightarrow> bool"
  ShortestRSP :: "real \<times> real \<times> real \<Rightarrow> real \<times> real \<times> real \<Rightarrow> ReedSheppPath option"
  NormalizeAngle :: "real \<Rightarrow> real"
  double_arc_by_step :: "real \<Rightarrow> real \<Rightarrow> machine_double"
  fresh_direc :: bool
  fresh_steer :: real
  fresh_traj_cost :: real
  fresh_heu_cost :: real

text \<open>Modelled from the spec: the constructor of \<^verbatim>\<open>Node3d\<close> from a terminal pose and the
  sample arrays; the parent link of a new node is null.\<close>

definition new_Node3d ::
  "'o collaborators \<Rightarrow> real list \<Rightarrow> real \<Rightarrow> real \<Rightarrow> real \<Rightarrow>
     real list \<Rightarrow> real list \<Rightarrow> real list \<Rightarrow> Node3d" where
  "new_Node3d e bounds px py pphi pxs pys pphis =
     Node3d px py pphi pxs pys pphis (NodeIndex e bounds px py pphi) None
       (fresh_direc e) (fresh_steer e) (fresh_traj_cost e) (fresh_heu_cost e)"

definition pose :: "Node3d \<Rightarrow> real \<times> real \<times> real" where
  "pose n = (GetX n, GetY n, GetPhi n)"

section \<open>Cost of a Reeds-Shepp path and of a motion primitive\<close>

text \<open>The three passes of \<^verbatim>\<open>CalculateRSPCost\<close> over the segments, each with the running cost as an
  accumulator. The first walks the signed segment lengths.\<close>

fun rsp_length_loop :: "config \<Rightarrow> real list \<Rightarrow> real \<Rightarrow> real" where
  "rsp_length_loop c [] cost = cost"
| "rsp_length_loop c (l # ls) cost =
     rsp_length_loop c ls
       (if l > 0 then cost + l else cost + l * back_penalty c)"

text \<open>The second loop compares the entries \<open>i\<close> and \<open>i + 1\<close> for \<open>i < size - 1\<close>.\<close>

fun rsp_gear_loop :: "config \<Rightarrow> real list \<Rightarrow> real \<Rightarrow> real" where
  "rsp_gear_loop c (l # l' # ls) cost =
     rsp_gear_loop c (l' # ls)
       (if l * l' < 0 then cost + gear_switch_penalty c else cost)"
| "rsp_gear_loop c ls cost = cost"

text \<open>The third loop carries \<^verbatim>\<open>first_nonS_flag\<close> and \<^verbatim>\<open>last_turning\<close>; the latter is
  written once, at the first segment that is not \<open>S\<close>.\<close>

fun rsp_steer_loop :: "config \<Rightarrow> string \<Rightarrow> bool \<Rightarrow> char \<Rightarrow> real \<Rightarrow> real" where
  "rsp_steer_loop c [] first_nonS_flag last_turning cost = cost"
| "rsp_steer_loop c (t # ts) first_nonS_flag last_turning cost =
     (if t \<noteq> CHR ''S'' then
        (if \<not> first_nonS_flag
         then rsp_steer_loop c ts True t (cost + steer_penalty c * max_steer c)
         else if t \<noteq> last_turning
         then rsp_steer_loop c ts first_nonS_flag last_turning
                (cost + steer_penalty c * max_steer c
                   + 2 * steer_change_penalty c * max_steer c)
         else rsp_steer_loop c ts first_nonS_flag last_turning
                (cost + steer_penalty c * max_steer c))
      else rsp_steer_loop c ts first_nonS_flag last_turning cost)"

text \<open>With no segment, the bound \<^verbatim>\<open>size() - 1\<close> of the second loop wraps and the loop
  reads past the end of the vector; \<^verbatim>\<open>last_turning\<close> starts uninitialised and is not
  read before it is written, so its first value here is immaterial.\<close>

definition CalculateRSPCost :: "config \<Rightarrow> ReedSheppPath \<Rightarrow> fault + real" where
  "CalculateRSPCost c p =
     (if segs_lengths p = [] then Inl OutOfRange
      else Inr (rsp_steer_loop c (segs_types p) False (CHR ''S'')
                 (rsp_gear_loop c (segs_lengths p)
                    (rsp_length_loop c (segs_lengths p) 0))))"

text \<open>The length term as the specification words it: forward length at unit cost, the
  length of a reverse segment (its sign removed) at \<open>back_penalty\<close>.\<close>

definition spec_length_term :: "config \<Rightarrow> real list \<Rightarrow> real" where
  "spec_length_term c ls =
     sum_list (map (\<lambda>l. max l 0) ls)
       + sum_list (map (\<lambda>l. (- l) * back_penalty c) (filter (\<lambda>l. l < 0) ls))"

definition piecewise_cost :: "config \<Rightarrow> Node3d \<Rightarrow> Node3d \<Rightarrow> real" where
  "piecewise_cost c current_node next_node =
     (let c0 = 0;
          c1 = (if GetDirec next_node then c0 + xy_grid_resolution c
                else c0 + xy_grid_resolution c * back_penalty c);
          c2 = (if GetDirec current_node \<noteq> GetDirec next_node
                then c1 + gear_switch_penalty c else c1);
          c3 = c2 + steer_penalty c * \<bar>GetSteer next_node\<bar>
      in c3 + steer_change_penalty c * \<bar>GetSteer next_node - GetSteer current_node\<bar>)"

definition CalculateNodeCost ::
  "config \<Rightarrow> Node3d \<Rightarrow> Node3d \<Rightarrow> ReedSheppPath \<Rightarrow> fault + Node3d" where
  "CalculateNodeCost c current_node next_node reeds_shepp_to_end =
     (let next1 = SetTrajCost (GetTrajCost current_node
                     + piecewise_cost c current_node next_node) next_node
      in case CalculateRSPCost c reeds_shepp_to_end of
           Inl f \<Rightarrow> Inl f
         | Inr h \<Rightarrow> Inr (SetHeuCost h next1))"

section \<open>Validity check\<close>

fun overlaps_any :: "'o collaborators \<Rightarrow> 'o list \<Rightarrow> real \<times> real \<times> real \<Rightarrow> bool" where
  "overlaps_any e [] p = False"
| "overlaps_any e (b # bs) p =
     (if HasOverlap e (fst p) (fst (snd p)) (snd (snd p)) b then True
      else overlaps_any e bs p)"

text \<open>\<^verbatim>\<open>ValidityCheck\<close> reads a node only through its bounding box, which the spec
  centres at the terminal pose; the model takes the pose.\<close>

definition ValidityCheck :: "'o collaborators \<Rightarrow> 'o list \<Rightarrow> real \<times> real \<times> real \<Rightarrow> bool" where
  "ValidityCheck e obstacles p =
     (if obstacles = [] then True else \<not> overlaps_any e obstacles p)"

text \<open>\<^verbatim>\<open>RSPCheck\<close> indexes \<open>y\<close> and \<open>phi\<close> by the positions of \<open>x\<close>.\<close>

fun RSPCheck_loop ::
  "'o collaborators \<Rightarrow> 'o list \<Rightarrow> real list \<Rightarrow> real list \<Rightarrow> real list \<Rightarrow> fault + bool" where
  "RSPCheck_loop e obstacles [] pys pphis = Inr True"
| "RSPCheck_loop e obstacles (px # pxs) (py # pys) (pphi # pphis) =
     (if \<not> ValidityCheck e obstacles (px, py, pphi) then Inr False
      else RSPCheck_loop e obstacles pxs pys pphis)"
| "RSPCheck_loop e obstacles (px # pxs) pys pphis = Inl OutOfRange"

definition RSPCheck :: "'o collaborators \<Rightarrow> 'o list \<Rightarrow> ReedSheppPath \<Rightarrow> fault + bool" where
  "RSPCheck e obstacles p = RSPCheck_loop e obstacles (rsp_x p) (rsp_y p) (rsp_phi p)"

section \<open>Motion primitives\<close>

text \<open>The steering of primitive \<open>k\<close>; the divisor \<^verbatim>\<open>next_node_num_ / 2 - 1\<close> is
  unsigned arithmetic. With two or three primitives the divisor is zero and the C++
  quotient is an infinity or a NaN, which a \<^typ>\<open>real\<close> is not: a statement below that
  depends on the value of the steering assumes a divisor other than zero.\<close>

definition primitive_steering :: "config \<Rightarrow> nat \<Rightarrow> real" where
  "primitive_steering c k =
     (if k < next_node_num c div 2
      then - max_steer c
             + (2 * max_steer c / real (size_t_sub (next_node_num c div 2) 1)) * real k
      else - max_steer c
             + (2 * max_steer c / real (size_t_sub (next_node_num c div 2) 1))
                 * real (k - next_node_num c div 2))"

definition primitive_distance :: "config \<Rightarrow> nat \<Rightarrow> real" where
  "primitive_distance c k =
     (if k < next_node_num c div 2 then step_size c else - step_size c)"

text \<open>The arc length of a primitive as an exact number, which is how the specification
  speaks of it.\<close>

definition arc :: "config \<Rightarrow> real" where
  "arc c = sqrt 2 * xy_grid_resolution c"

text \<open>The integration loop: \<open>bound\<close> is the value the counter is compared with, \<open>i\<close>
  counts the substeps done, the lists are the samples so far, the triple is the last
  pose.\<close>

function integrate ::
  "config \<Rightarrow> (real \<Rightarrow> real) \<Rightarrow> real \<Rightarrow> real \<Rightarrow> real \<Rightarrow> nat \<Rightarrow>
     real list \<times> real list \<times> real list \<times> real \<times> real \<times> real \<Rightarrow>
     real list \<times> real list \<times> real list \<times> real \<times> real \<times> real" where
  "integrate c wrap steering traveled_distance bound i s =
     (if real i < bound then
        (case s of (ixs, iys, iphis, last_x, last_y, last_phi) \<Rightarrow>
           (let next_x = last_x + traveled_distance * cos last_phi;
                next_y = last_y + traveled_distance * sin last_phi;
                next_phi = wrap (last_phi + traveled_distance / wheel_base c * tan steering)
            in integrate c wrap steering traveled_distance bound (Suc i)
                 (ixs @ [next_x], iys @ [next_y], iphis @ [next_phi],
                  next_x, next_y, next_phi)))
      else s)"
  by pat_completeness auto
termination
  by (relation "measure (\<lambda>(c, wrap, steering, d, bound, i, s). nat \<lceil>bound\<rceil> - i)")
     (auto, linarith)

declare integrate.simps [simp del]

text \<open>The node \<^verbatim>\<open>Next_node_generator\<close> builds after its loop, from the samples and the
  last pose.\<close>

definition primitive_node ::
  "'o collaborators \<Rightarrow> real list \<Rightarrow> Node3d \<Rightarrow> real \<Rightarrow> real \<Rightarrow>
     real list \<times> real list \<times> real list \<times> real \<times> real \<times> real \<Rightarrow> Node3d" where
  "primitive_node e bounds current_node steering traveled_distance s =
     (case s of (ixs, iys, iphis, last_x, last_y, last_phi) \<Rightarrow>
        SetSteer steering
          (SetDirec (traveled_distance > 0)
             (SetPre current_node
                (new_Node3d e bounds last_x last_y last_phi ixs iys iphis))))"

text \<open>A comparison with a NaN is false and nothing is less than minus infinity, so the
  loop makes no pass then; every counter is less than plus infinity, so the loop has no
  end.\<close>

definition Next_node_generator ::
  "config \<Rightarrow> 'o collaborators \<Rightarrow> real list \<Rightarrow> Node3d \<Rightarrow> nat \<Rightarrow> fault + Node3d" where
  "Next_node_generator c e bounds current_node next_node_index =
     (let steering = primitive_steering c next_node_index;
          traveled_distance = primitive_distance c next_node_index;
          first = ([GetX current_node], [GetY current_node], [GetPhi current_node],
                   GetX current_node, GetY current_node, GetPhi current_node)
      in case double_arc_by_step e (xy_grid_resolution c) (step_size c) of
           Finite bound \<Rightarrow>
             if 2 ^ 53 < bound then Inl FuelExhausted
             else Inr (primitive_node e bounds current_node steering traveled_distance
                         (integrate c (NormalizeAngle e) steering traveled_distance bound 0
                            first))
         | PlusInfinity \<Rightarrow> Inl NoReturn
         | MinusInfinity \<Rightarrow>
             Inr (primitive_node e bounds current_node steering traveled_distance first)
         | NotANumber \<Rightarrow>
             Inr (primitive_node e bounds current_node steering traveled_distance first))"

section \<open>Reconstruction of the result\<close>

text \<open>\<^verbatim>\<open>GenerateSpeedAcceleration\<close> appends to the \<open>v\<close>, \<open>a\<close> and \<open>steer\<close> arrays the
  result already has. Each of its three passes runs over \<open>i < x_size - 1\<close>, and they read \<open>x[i + 1]\<close>,
  \<open>y[i + 1]\<close> and \<open>phi[i + 1]\<close>: a \<open>y\<close> or \<open>phi\<close> array shorter than \<open>x\<close> is read past
  its end. The divisions by \<open>delta_t\<close> and \<open>step_size\<close> give an infinity or a NaN in C++
  when the divisor is zero: a statement below about the values produced assumes both
  other than zero.\<close>

definition GenerateSpeedAcceleration :: "config \<Rightarrow> Result \<Rightarrow> fault + bool \<times> Result" where
  "GenerateSpeedAcceleration c r =
     (if length (res_x r) < 2 \<or> length (res_y r) < 2 \<or> length (res_phi r) < 2
      then Inr (False, r)
      else
        (let x_size = length (res_x r) in
         if length (res_y r) < x_size \<or> length (res_phi r) < x_size then Inl OutOfRange
         else
           (let vs = res_v r @
                  map (\<lambda>i. ((res_x r ! (i + 1) - res_x r ! i) / delta_t c) * cos (res_phi r ! i)
                         + ((res_y r ! (i + 1) - res_y r ! i) / delta_t c) * sin (res_phi r ! i))
                    [0..<x_size - 1]
                  @ [0];
                as = res_a r @
                  map (\<lambda>i. (vs ! (i + 1) - vs ! i) / delta_t c) [0..<x_size - 1];
                steers = res_steer r @
                  map (\<lambda>i. (let discrete_steer =
                                 (res_phi r ! (i + 1) - res_phi r ! i) * wheel_base c / step_size c
                            in if vs ! i > 0 then arctan discrete_steer
                               else arctan (- discrete_steer)))
                    [0..<x_size - 1]
            in Inr (True, r\<lparr>res_v := vs, res_a := as, res_steer := steers\<rparr>))))"

text \<open>The walk of \<^verbatim>\<open>GetResult\<close> along the parent links: \<open>None\<close> is its
  \<^verbatim>\<open>return false\<close> on an empty sample array.\<close>

fun trace_back ::
  "Node3d \<Rightarrow> real list \<times> real list \<times> real list \<Rightarrow> (real list \<times> real list \<times> real list) option" where
  "trace_back (Node3d px py pphi pxs pys pphis i None d s g h) (hx, hy, hphi) =
     Some (hx @ [px], hy @ [py], hphi @ [pphi])"
| "trace_back (Node3d px py pphi pxs pys pphis i (Some parent) d s g h) (hx, hy, hphi) =
     (if pxs = [] \<or> pys = [] \<or> pphis = [] then None
      else trace_back parent
             (hx @ butlast (rev pxs), hy @ butlast (rev pys), hphi @ butlast (rev pphis)))"

definition GetResult :: "config \<Rightarrow> Node3d \<Rightarrow> Result \<Rightarrow> fault + bool \<times> Result" where
  "GetResult c final result =
     (case trace_back final ([], [], []) of
        None \<Rightarrow> Inr (False, result)
      | Some (hx, hy, hphi) \<Rightarrow>
          (case GenerateSpeedAcceleration c
                  (result\<lparr>res_x := hx, res_y := hy, res_phi := hphi\<rparr>) of
             Inl f \<Rightarrow> Inl f
           | Inr (ok, r) \<Rightarrow>
               if \<not> ok then Inr (False, r)
               else if length (res_x r) \<noteq> length (res_y r)
                     \<or> length (res_x r) \<noteq> length (res_v r)
                     \<or> length (res_x r) \<noteq> length (res_phi r) then Inr (False, r)
               else if length (res_a r) \<noteq> length (res_steer r)
                     \<or> size_t_sub (length (res_x r)) (length (res_a r)) \<noteq> 1
               then Inr (False, r)
               else Inr (True, r)))"

section \<open>The search\<close>

text \<open>The containers of the planner. \<^verbatim>\<open>insert\<close> on a map keeps an entry that is already
  there.\<close>

record planner =
  open_set :: "nat \<rightharpoonup> Node3d"
  close_set :: "nat \<rightharpoonup> Node3d"
  open_pq :: "(nat \<times> real) list"
  ReedSheppPath_cache :: "nat \<rightharpoonup> ReedSheppPath"
  final_node :: "Node3d option"

definition map_insert :: "('k \<rightharpoonup> 'v) \<Rightarrow> 'k \<Rightarrow> 'v \<Rightarrow> ('k \<rightharpoonup> 'v)" where
  "map_insert m k v = (case m k of None \<Rightarrow> m(k \<mapsto> v) | Some w \<Rightarrow> m)"

text \<open>Modelled from the spec: the priority queue (its comparator is declared outside
  the sources at hand) is min-ordered by the cost; among equal costs the model takes the
  entry pushed first.\<close>

fun pq_least :: "nat \<times> real \<Rightarrow> (nat \<times> real) list \<Rightarrow> nat \<times> real" where
  "pq_least b [] = b"
| "pq_least b (q # qs) = pq_least (if snd q < snd b then q else b) qs"

definition pq_top :: "(nat \<times> real) list \<Rightarrow> nat \<times> real" where
  "pq_top qs = pq_least (hd qs) (tl qs)"

definition pq_pop :: "(nat \<times> real) list \<Rightarrow> (nat \<times> real) list" where
  "pq_pop qs = remove1 (pq_top qs) qs"

definition pq_push :: "nat \<times> real \<Rightarrow> (nat \<times> real) list \<Rightarrow> (nat \<times> real) list" where
  "pq_push q qs = qs @ [q]"

definition cleared :: planner where
  "cleared = \<lparr>open_set = Map.empty, close_set = Map.empty, open_pq = [],
              ReedSheppPath_cache = Map.empty, final_node = None\<rparr>"

definition LoadRSPinCS ::
  "config \<Rightarrow> 'o collaborators \<Rightarrow> real list \<Rightarrow> ReedSheppPath \<Rightarrow> Node3d \<Rightarrow> planner \<Rightarrow>
     fault + Node3d \<times> planner" where
  "LoadRSPinCS c e bounds p current_node st =
     (if rsp_x p = [] \<or> rsp_y p = [] \<or> rsp_phi p = [] then Inl OutOfRange
      else case CalculateRSPCost c p of
             Inl f \<Rightarrow> Inl f
           | Inr cost \<Rightarrow>
               (let end_node =
                      SetTrajCost cost
                        (SetPre current_node
                           (new_Node3d e bounds (last (rsp_x p)) (last (rsp_y p))
                              (last (rsp_phi p)) (rsp_x p) (rsp_y p) (rsp_phi p)))
                in Inr (end_node,
                        st\<lparr>close_set :=
                             map_insert (close_set st) (GetIndex end_node) end_node\<rparr>)))"

text \<open>\<^verbatim>\<open>operator[]\<close> on the cache yields a null pointer for a key that is not there,
  and \<^verbatim>\<open>RSPCheck\<close> dereferences what it is given.\<close>

definition AnalyticExpansion ::
  "config \<Rightarrow> 'o collaborators \<Rightarrow> real list \<Rightarrow> 'o list \<Rightarrow> Node3d \<Rightarrow> planner \<Rightarrow>
     fault + bool \<times> planner" where
  "AnalyticExpansion c e bounds obstacles current_node st =
     (case ReedSheppPath_cache st (GetIndex current_node) of
        None \<Rightarrow> Inl NullDeref
      | Some p \<Rightarrow>
          (case RSPCheck e obstacles p of
             Inl f \<Rightarrow> Inl f
           | Inr ok \<Rightarrow>
               if \<not> ok then Inr (False, st)
               else (case LoadRSPinCS c e bounds p current_node st of
                       Inl f \<Rightarrow> Inl f
                     | Inr (end_node, st') \<Rightarrow>
                         Inr (True, st'\<lparr>final_node := Some end_node\<rparr>))))"

definition ReedSheppHeuristic ::
  "'o collaborators \<Rightarrow> Node3d \<Rightarrow> Node3d \<Rightarrow> planner \<Rightarrow> ReedSheppPath option \<times> planner" where
  "ReedSheppHeuristic e end_node current_node st =
     (case ShortestRSP e (pose current_node) (pose end_node) of
        None \<Rightarrow> (None, st)
      | Some p \<Rightarrow>
          (Some p,
           st\<lparr>ReedSheppPath_cache :=
                map_insert (ReedSheppPath_cache st) (GetIndex current_node) p\<rparr>))"

text \<open>The body of the loop over the primitives, for one index.\<close>

definition try_successor ::
  "config \<Rightarrow> 'o collaborators \<Rightarrow> real list \<Rightarrow> 'o list \<Rightarrow> Node3d \<Rightarrow> Node3d \<Rightarrow> nat \<Rightarrow>
     planner \<Rightarrow> fault + planner" where
  "try_successor c e bounds obstacles end_node current_node i st =
     (case Next_node_generator c e bounds current_node i of
        Inl f \<Rightarrow> Inl f
      | Inr next_node \<Rightarrow>
          if \<not> ValidityCheck e obstacles (pose next_node) then Inr st
          else if close_set st (GetIndex next_node) \<noteq> None then Inr st
          else if open_set st (GetIndex next_node) = None then
            (case ReedSheppHeuristic e end_node next_node st of
               (None, st1) \<Rightarrow> Inr st1
             | (Some p, st1) \<Rightarrow>
                 (case CalculateNodeCost c current_node next_node p of
                    Inl f \<Rightarrow> Inl f
                  | Inr next' \<Rightarrow>
                      Inr (st1\<lparr>open_set := map_insert (open_set st1) (GetIndex next') next',
                               open_pq := pq_push (GetIndex next', GetCost next')
                                            (open_pq st1)\<rparr>)))
          else Inr st)"

fun expand ::
  "config \<Rightarrow> 'o collaborators \<Rightarrow> real list \<Rightarrow> 'o list \<Rightarrow> Node3d \<Rightarrow> Node3d \<Rightarrow> nat list \<Rightarrow>
     planner \<Rightarrow> fault + planner" where
  "expand c e bounds obstacles end_node current_node [] st = Inr st"
| "expand c e bounds obstacles end_node current_node (i # is) st =
     (case try_successor c e bounds obstacles end_node current_node i st of
        Inl f \<Rightarrow> Inl f
      | Inr st' \<Rightarrow> expand c e bounds obstacles end_node current_node is st')"

text \<open>One pass through the body of the \<^verbatim>\<open>while\<close> loop, entered with a queue that is
  not empty; the flag tells whether the pass left the loop by \<^verbatim>\<open>break\<close>.
  \<^verbatim>\<open>operator[]\<close> on the open set yields a null pointer for a key that is not there.\<close>

definition loop_body ::
  "config \<Rightarrow> 'o collaborators \<Rightarrow> real list \<Rightarrow> 'o list \<Rightarrow> Node3d \<Rightarrow> planner \<Rightarrow>
     fault + bool \<times> planner" where
  "loop_body c e bounds obstacles end_node st =
     (let current_id = fst (pq_top (open_pq st));
          st1 = st\<lparr>open_pq := pq_pop (open_pq st)\<rparr>
      in case open_set st1 current_id of
           None \<Rightarrow> Inl NullDeref
         | Some current_node \<Rightarrow>
             (case AnalyticExpansion c e bounds obstacles current_node st1 of
                Inl f \<Rightarrow> Inl f
              | Inr (reached, st2) \<Rightarrow>
                  if reached then Inr (True, st2)
                  else
                    (case expand c e bounds obstacles end_node current_node
                            [0..<next_node_num c]
                            (st2\<lparr>close_set :=
                                   map_insert (close_set st2) (GetIndex current_node)
                                     current_node\<rparr>) of
                       Inl f \<Rightarrow> Inl f
                     | Inr st3 \<Rightarrow> Inr (False, st3))))"

fun search ::
  "config \<Rightarrow> 'o collaborators \<Rightarrow> real list \<Rightarrow> 'o list \<Rightarrow> Node3d \<Rightarrow> nat \<Rightarrow> planner \<Rightarrow>
     fault + planner" where
  "search c e bounds obstacles end_node 0 st =
     (if open_pq st = [] then Inr st else Inl FuelExhausted)"
| "search c e bounds obstacles end_node (Suc fuel) st =
     (if open_pq st = [] then Inr st
      else case loop_body c e bounds obstacles end_node st of
             Inl f \<Rightarrow> Inl f
           | Inr (reached, st') \<Rightarrow>
               if reached then Inr st'
               else search c e bounds obstacles end_node fuel st')"

section \<open>Plan\<close>

text \<open>The part of \<^verbatim>\<open>Plan\<close> before the loop: \<open>Inl\<close> is the planner as an early
  \<^verbatim>\<open>return false\<close> leaves it, \<open>Inr\<close> the planner at the first test of the loop.\<close>

definition start_of :: "'o collaborators \<Rightarrow> real list \<Rightarrow> real \<times> real \<times> real \<Rightarrow> Node3d" where
  "start_of e bounds p =
     new_Node3d e bounds (fst p) (fst (snd p)) (snd (snd p))
       [fst p] [fst (snd p)] [snd (snd p)]"

definition Plan_setup ::
  "'o collaborators \<Rightarrow> real list \<Rightarrow> 'o list \<Rightarrow> real \<times> real \<times> real \<Rightarrow> real \<times> real \<times> real \<Rightarrow>
     planner + planner" where
  "Plan_setup e bounds obstacles s g =
     (let start_node = start_of e bounds s;
          end_node = start_of e bounds g
      in if \<not> ValidityCheck e obstacles (pose start_node) then Inl cleared
         else if \<not> ValidityCheck e obstacles (pose end_node) then Inl cleared
         else
           (let st1 = cleared\<lparr>open_set :=
                         map_insert (open_set cleared) (GetIndex start_node) start_node,
                       open_pq := pq_push (GetIndex start_node, GetCost start_node)
                                    (open_pq cleared)\<rparr>
            in case ShortestRSP e (pose start_node) (pose end_node) of
                 None \<Rightarrow> Inl st1
               | Some p \<Rightarrow>
                   Inr (st1\<lparr>ReedSheppPath_cache :=
                              map_insert (ReedSheppPath_cache st1)
                                (GetIndex start_node) p\<rparr>)))"

text \<open>\<^verbatim>\<open>Plan\<close> returns its boolean, the result object as it leaves it, and the planner.
  The counters and timestamps it only logs are left out.\<close>

definition Plan ::
  "config \<Rightarrow> 'o collaborators \<Rightarrow> nat \<Rightarrow> real \<Rightarrow> real \<Rightarrow> real \<Rightarrow> real \<Rightarrow> real \<Rightarrow> real \<Rightarrow>
     real list \<Rightarrow> 'o list \<Rightarrow> Result \<Rightarrow> fault + bool \<times> Result \<times> planner" where
  "Plan c e fuel sx sy sphi ex ey ephi bounds obstacles result =
     (case Plan_setup e bounds obstacles (sx, sy, sphi) (ex, ey, ephi) of
        Inl st \<Rightarrow> Inr (False, result, st)
      | Inr st \<Rightarrow>
          (case search c e bounds obstacles (start_of e bounds (ex, ey, ephi)) fuel st of
             Inl f \<Rightarrow> Inl f
           | Inr st' \<Rightarrow>
               (case final_node st' of
                  None \<Rightarrow> Inr (False, result, st')
                | Some final \<Rightarrow>
                    (case GetResult c final result of
                       Inl f \<Rightarrow> Inl f
                     | Inr (ok, r) \<Rightarrow> Inr (ok, r, st')))))"

text \<open>The planner states at the test of the \<^verbatim>\<open>while\<close> loop during one call of
  \<^verbatim>\<open>Plan\<close>.\<close>

inductive loop_head ::
  "config \<Rightarrow> 'o collaborators \<Rightarrow> real list \<Rightarrow> 'o list \<Rightarrow> real \<times> real \<times> real \<Rightarrow>
     real \<times> real \<times> real \<Rightarrow> planner \<Rightarrow> bool"
  for c e bounds obstacles s g where
  first: "Plan_setup e bounds obstacles s g = Inr st \<Longrightarrow> loop_head c e bounds obstacles s g st"
| again: "loop_head c e bounds obstacles s g st \<Longrightarrow> open_pq st \<noteq> [] \<Longrightarrow>
          loop_body c e bounds obstacles (start_of e bounds g) st = Inr (False, st') \<Longrightarrow>
          loop_head c e bounds obstacles s g st'"

text \<open>Non-decreasing \<open>traj_cost\<close> from a node back along its parent links.\<close>

fun chain_monotone :: "Node3d \<Rightarrow> bool" where
  "chain_monotone (Node3d px py pphi pxs pys pphis i None d s g h) = True"
| "chain_monotone (Node3d px py pphi pxs pys pphis i (Some parent) d s g h) =
     (GetTrajCost parent \<le> g \<and> chain_monotone parent)"

text \<open>What the containers satisfy at every test of the loop: a node is stored under its
  own index, every open key has a cached path, every queued key is open, and a closed
  node is the open node of the same key.\<close>

definition coherent :: "planner \<Rightarrow> bool" where
  "coherent st =
     ((\<forall>k n. open_set st k = Some n \<longrightarrow> GetIndex n = k)
      \<and> (\<forall>k. open_set st k \<noteq> None \<longrightarrow> ReedSheppPath_cache st k \<noteq> None)
      \<and> (\<forall>q \<in> set (open_pq st). open_set st (fst q) \<noteq> None)
      \<and> (\<forall>k n. close_set st k = Some n \<longrightarrow> open_set st k = Some n))"

definition costs_monotone :: "planner \<Rightarrow> bool" where
  "costs_monotone st = (\<forall>k n. open_set st k = Some n \<longrightarrow> chain_monotone n)"

definition nonneg_penalties :: "config \<Rightarrow> bool" where
  "nonneg_penalties c =
     (0 \<le> xy_grid_resolution c \<and> 0 \<le> back_penalty c \<and> 0 \<le> gear_switch_penalty c
      \<and> 0 \<le> steer_penalty c \<and> 0 \<le> steer_change_penalty c)"

section \<open>Concrete inputs\<close>

text \<open>A vehicle that cannot steer, on the line \<open>y = 0\<close> with heading \<open>0\<close>: obstacles are
  intervals of \<open>x\<close>, the Reeds-Shepp generator joins two poses by one straight segment
  sampled at its ends and its middle, and the grid has cells of width \<open>1/2\<close> from the
  lower \<open>x\<close> bound. The \<^verbatim>\<open>double\<close> nearest to the square root of two is
  \<open>6369051672525773 / 2^52\<close>; its product with \<open>r / s\<close> is the machine's value for
  \<open>r = s = 1\<close>, the only members the runs below have.\<close>

definition rail_config :: config where
  "rail_config = \<lparr>next_node_num = 4, max_steer = 0, step_size = 1, xy_grid_resolution = 1,
     back_penalty = 2, gear_switch_penalty = 3, steer_penalty = 1,
     steer_change_penalty = 1, delta_t = 1, wheel_base = 1\<rparr>"

definition straight_rsp :: "real \<times> real \<times> real \<Rightarrow> real \<times> real \<times> real \<Rightarrow> ReedSheppPath" where
  "straight_rsp p q =
     \<lparr>rsp_x = [fst p, (fst p + fst q) / 2, fst q],
      rsp_y = [fst (snd p), (fst (snd p) + fst (snd q)) / 2, fst (snd q)],
      rsp_phi = [snd (snd p), snd (snd p), snd (snd q)],
      segs_lengths = [fst q - fst p], segs_types = ''S''\<rparr>"

definition rail_world :: "(real \<times> real) collaborators" where
  "rail_world =
     \<lparr>NodeIndex = (\<lambda>bounds px py pphi. nat \<lfloor>2 * (px - bounds ! 0)\<rfloor>),
      HasOverlap = (\<lambda>px py pphi b. fst b \<le> px \<and> px \<le> snd b),
      ShortestRSP = (\<lambda>p q. Some (straight_rsp p q)),
      NormalizeAngle = (\<lambda>a. a),
      double_arc_by_step = (\<lambda>r s. Finite (6369051672525773 / 4503599627370496 * r / s)),
      fresh_direc = True, fresh_steer = 0, fresh_traj_cost = 0, fresh_heu_cost = 0\<rparr>"



definition rail_bounds :: "real list" where
  "rail_bounds = [-10, 10, -5, 5]"

definition fresh_result :: Result where
  "fresh_result = \<lparr>res_x = [], res_y = [], res_phi = [], res_v = [], res_a = [],
                    res_steer = []\<rparr>"

text \<open>Reading what \<open>Plan\<close> returned.\<close>

fun plan_ok :: "fault + bool \<times> Result \<times> planner \<Rightarrow> bool option" where
  "plan_ok (Inl f) = None"
| "plan_ok (Inr (ok, r, st)) = Some ok"

fun plan_result :: "fault + bool \<times> Result \<times> planner \<Rightarrow> Result option" where
  "plan_result (Inl f) = None"
| "plan_result (Inr (ok, r, st)) = Some r"

fun plan_final :: "fault + bool \<times> Result \<times> planner \<Rightarrow> Node3d option" where
  "plan_final (Inl f) = None"
| "plan_final (Inr (ok, r, st)) = final_node st"

text \<open>A run on the rail from \<open>x = 0\<close> to \<open>x = 5/2\<close> with one obstacle over the middle of
  the first Reeds-Shepp path: the start node, its two successors that enter the open
  set, the planner at the first and at the second test of the loop, and the terminal
  node of the analytic expansion from the forward successor.\<close>

definition blocked :: "(real \<times> real) list" where
  "blocked = [(9 / 8, 11 / 8)]"

definition rail_origin :: Node3d where
  "rail_origin = Node3d 0 0 0 [0] [0] [0] 20 None True 0 0 0"

definition rail_forward :: Node3d where
  "rail_forward =
     Node3d 2 0 0 [0, 1, 2] [0, 0, 0] [0, 0, 0] 24 (Some rail_origin) True 0 1 (1 / 2)"

definition rail_backward :: Node3d where
  "rail_backward =
     Node3d (- 2) 0 0 [0, - 1, - 2] [0, 0, 0] [0, 0, 0] 16 (Some rail_origin) False 0 5 (9 / 2)"

definition rail_terminal :: Node3d where
  "rail_terminal =
     Node3d (5 / 2) 0 0 [2, 9 / 4, 5 / 2] [0, 0, 0] [0, 0, 0] 25 (Some rail_forward) True 0
       (1 / 2) 0"

definition rail_first :: planner where
  "rail_first =
     \<lparr>open_set = [20 \<mapsto> rail_origin], close_set = Map.empty, open_pq = [(20, 0)],
      ReedSheppPath_cache = [20 \<mapsto> straight_rsp (0, 0, 0) (5 / 2, 0, 0)],
      final_node = None\<rparr>"

definition rail_second :: planner where
  "rail_second =
     \<lparr>open_set = [20 \<mapsto> rail_origin, 24 \<mapsto> rail_forward, 16 \<mapsto> rail_backward],
      close_set = [20 \<mapsto> rail_origin],
      open_pq = [(24, 3 / 2), (16, 19 / 2)],
      ReedSheppPath_cache =
        [20 \<mapsto> straight_rsp (0, 0, 0) (5 / 2, 0, 0),
         24 \<mapsto> straight_rsp (2, 0, 0) (5 / 2, 0, 0),
         16 \<mapsto> straight_rsp (- 2, 0, 0) (5 / 2, 0, 0)],
      final_node = None\<rparr>"


section \<open>Lemmas about the model\<close>

lemma GetIndex_set [simp]:
  "GetIndex (SetPre p n) = GetIndex n" "GetIndex (SetDirec d n) = GetIndex n"
  "GetIndex (SetSteer s n) = GetIndex n" "GetIndex (SetTrajCost g n) = GetIndex n"
  "GetIndex (SetHeuCost h n) = GetIndex n"
  by (cases n; simp)+

lemma GetTrajCost_set [simp]:
  "GetTrajCost (SetTrajCost g n) = g" "GetTrajCost (SetHeuCost h n) = GetTrajCost n"
  by (cases n; simp)+

lemma GetPreNode_set [simp]:
  "GetPreNode (SetPre p n) = Some p" "GetPreNode (SetDirec d n) = GetPreNode n"
  "GetPreNode (SetSteer s n) = GetPreNode n" "GetPreNode (SetTrajCost g n) = GetPreNode n"
  "GetPreNode (SetHeuCost h n) = GetPreNode n"
  by (cases n; simp)+

lemma chain_monotone_iff:
  "chain_monotone n =
     (case GetPreNode n of None \<Rightarrow> True
      | Some p \<Rightarrow> GetTrajCost p \<le> GetTrajCost n \<and> chain_monotone p)"
  by (cases n; cases "GetPreNode n"; simp)

lemma GetPreNode_primitive_node [simp]:
  "GetPreNode (primitive_node e bounds current steering d s) = Some current"
  by (simp add: primitive_node_def split: prod.splits)

lemma GetPreNode_Next:
  "Next_node_generator c e bounds current i = Inr nx \<Longrightarrow> GetPreNode nx = Some current"
  by (auto simp: Next_node_generator_def Let_def split: machine_double.splits if_splits)

lemma map_insert_apply:
  "map_insert m k v k' = (if k' = k \<and> m k = None then Some v else m k')"
  by (simp add: map_insert_def split: option.splits)

lemma pq_least_mem: "pq_least b qs \<in> insert b (set qs)"
  by (induction qs arbitrary: b) (auto split: if_splits)

lemma pq_top_mem: "qs \<noteq> [] \<Longrightarrow> pq_top qs \<in> set qs"
  using pq_least_mem [of "hd qs" "tl qs"] by (cases qs) (auto simp: pq_top_def)

lemma pq_pop_subset: "set (pq_pop qs) \<subseteq> set qs"
  by (simp add: pq_pop_def set_remove1_subset)

text \<open>What one index of the expansion does to the planner.\<close>

lemma map_insert_fresh: "m k = None \<Longrightarrow> map_insert m k v = m(k \<mapsto> v)"
  by (simp add: map_insert_def)

lemma try_successor_cases:
  assumes "try_successor c e bounds obstacles end_node current i st = Inr st'"
  shows "st' = st \<or>
     (\<exists>n p nx. open_set st (GetIndex n) = None \<and> close_set st (GetIndex n) = None
        \<and> GetPreNode n = Some current
        \<and> GetTrajCost n = GetTrajCost current + piecewise_cost c current nx
        \<and> st' = st\<lparr>ReedSheppPath_cache := map_insert (ReedSheppPath_cache st) (GetIndex n) p,
                    open_set := (open_set st)(GetIndex n \<mapsto> n),
                    open_pq := open_pq st @ [(GetIndex n, GetCost n)]\<rparr>)"
proof (cases "st' = st")
  case True
  then show ?thesis by simp
next
  case False
  from assms obtain nx where nx: "Next_node_generator c e bounds current i = Inr nx"
    by (auto simp: try_successor_def split: sum.splits)
  with assms False have valid: "close_set st (GetIndex nx) = None"
    "open_set st (GetIndex nx) = None" "ValidityCheck e obstacles (pose nx)"
    by (auto simp: try_successor_def split: if_splits)
  from assms False valid nx obtain p where p: "ShortestRSP e (pose nx) (pose end_node) = Some p"
    by (auto simp: try_successor_def ReedSheppHeuristic_def split: if_splits option.splits)
  from assms False valid nx p obtain h where h: "CalculateRSPCost c p = Inr h"
    by (auto simp: try_successor_def ReedSheppHeuristic_def CalculateNodeCost_def Let_def
          split: if_splits sum.splits)
  define n where "n = SetHeuCost h (SetTrajCost (GetTrajCost current
                        + piecewise_cost c current nx) nx)"
  have idx: "GetIndex n = GetIndex nx" by (simp add: n_def)
  have "st' = st\<lparr>ReedSheppPath_cache := map_insert (ReedSheppPath_cache st) (GetIndex n) p,
                  open_set := (open_set st)(GetIndex n \<mapsto> n),
                  open_pq := open_pq st @ [(GetIndex n, GetCost n)]\<rparr>"
    using assms valid p h nx
    by (simp add: try_successor_def ReedSheppHeuristic_def CalculateNodeCost_def Let_def
          map_insert_fresh pq_push_def idx flip: n_def)
  moreover have "GetPreNode n = Some current"
    using GetPreNode_Next [OF nx] by (simp add: n_def)
  moreover have "GetTrajCost n = GetTrajCost current + piecewise_cost c current nx"
    by (simp add: n_def)
  ultimately show ?thesis using valid idx by metis
qed

lemma piecewise_cost_nonneg: "nonneg_penalties c \<Longrightarrow> 0 \<le> piecewise_cost c current nx"
  by (auto simp: piecewise_cost_def nonneg_penalties_def Let_def intro!: add_nonneg_nonneg mult_nonneg_nonneg)

lemma try_successor_coherent:
  assumes "try_successor c e bounds obstacles end_node current i st = Inr st'" "coherent st"
  shows "coherent st'"
proof -
  from try_successor_cases [OF assms(1)] show ?thesis
  proof (elim disjE exE conjE)
    assume "st' = st" with assms(2) show ?thesis by simp
  next
    fix n p
    assume fresh: "open_set st (GetIndex n) = None" "close_set st (GetIndex n) = None"
      and st': "st' = st\<lparr>ReedSheppPath_cache := map_insert (ReedSheppPath_cache st) (GetIndex n) p,
                    open_set := (open_set st)(GetIndex n \<mapsto> n),
                    open_pq := open_pq st @ [(GetIndex n, GetCost n)]\<rparr>"
    have 1: "\<forall>k m. open_set st' k = Some m \<longrightarrow> GetIndex m = k"
      using assms(2) by (auto simp: st' coherent_def split: if_splits)
    have 2: "\<forall>k. open_set st' k \<noteq> None \<longrightarrow> ReedSheppPath_cache st' k \<noteq> None"
      using assms(2) by (auto simp: st' coherent_def map_insert_apply split: if_splits)
    have 3: "\<forall>q \<in> set (open_pq st'). open_set st' (fst q) \<noteq> None"
      using assms(2) by (auto simp: st' coherent_def split: if_splits)
    have 4: "\<forall>k m. close_set st' k = Some m \<longrightarrow> open_set st' k = Some m"
      using assms(2) fresh by (auto simp: st' coherent_def split: if_splits)
    from 1 2 3 4 show ?thesis unfolding coherent_def by blast
  qed
qed

lemma try_successor_monotone:
  assumes "try_successor c e bounds obstacles end_node current i st = Inr st'"
    "costs_monotone st" "chain_monotone current" "nonneg_penalties c"
  shows "costs_monotone st'"
proof -
  from try_successor_cases [OF assms(1)] show ?thesis
  proof (elim disjE exE conjE)
    assume "st' = st" with assms(2) show ?thesis by simp
  next
    fix n p nx
    assume n: "GetPreNode n = Some current"
      "GetTrajCost n = GetTrajCost current + piecewise_cost c current nx"
      "st' = st\<lparr>ReedSheppPath_cache := map_insert (ReedSheppPath_cache st) (GetIndex n) p,
                    open_set := (open_set st)(GetIndex n \<mapsto> n),
                    open_pq := open_pq st @ [(GetIndex n, GetCost n)]\<rparr>"
    have "chain_monotone n"
      using n(1,2) assms(3) piecewise_cost_nonneg [OF assms(4), of current nx]
      by (subst chain_monotone_iff) simp
    with assms(2) n(3) show ?thesis by (auto simp: costs_monotone_def)
  qed
qed

lemma try_successor_frame:
  assumes "try_successor c e bounds obstacles end_node current i st = Inr st'"
  shows "close_set st' = close_set st" "final_node st' = final_node st"
    "open_set st k \<noteq> None \<Longrightarrow> open_set st' k = open_set st k"
    "close_set st k \<noteq> None \<Longrightarrow> open_set st' k = open_set st k"
  using try_successor_cases [OF assms] by auto

lemma expand_coherent:
  "expand c e bounds obstacles end_node current is st = Inr st' \<Longrightarrow> coherent st \<Longrightarrow> coherent st'"
  by (induction "is" arbitrary: st) (auto split: sum.splits dest: try_successor_coherent)

lemma expand_monotone:
  "expand c e bounds obstacles end_node current is st = Inr st' \<Longrightarrow> costs_monotone st \<Longrightarrow>
     chain_monotone current \<Longrightarrow> nonneg_penalties c \<Longrightarrow> costs_monotone st'"
  by (induction "is" arbitrary: st) (auto split: sum.splits dest: try_successor_monotone)

lemma expand_frame:
  "expand c e bounds obstacles end_node current is st = Inr st' \<Longrightarrow>
     close_set st' = close_set st \<and> final_node st' = final_node st
     \<and> (open_set st k \<noteq> None \<longrightarrow> open_set st' k = open_set st k)
     \<and> (close_set st k \<noteq> None \<longrightarrow> open_set st' k = open_set st k)"
proof (induction "is" arbitrary: st)
  case Nil
  then show ?case by simp
next
  case (Cons i "is")
  from Cons.prems obtain st1 where
    1: "try_successor c e bounds obstacles end_node current i st = Inr st1"
    and 2: "expand c e bounds obstacles end_node current is st1 = Inr st'"
    by (auto split: sum.splits)
  from Cons.IH [OF 2] try_successor_frame(1,2) [OF 1] try_successor_frame(3,4) [OF 1, of k]
  show ?case
    by (cases "open_set st k"; cases "close_set st k"; simp)
qed

lemma AnalyticExpansion_not_reached:
  "AnalyticExpansion c e bounds obstacles current st = Inr (False, st') \<Longrightarrow> st' = st"
  by (auto simp: AnalyticExpansion_def split: option.splits sum.splits if_splits prod.splits)

lemma AnalyticExpansion_reached:
  "AnalyticExpansion c e bounds obstacles current st = Inr (True, st') \<Longrightarrow>
     \<exists>k end_node. st' = st\<lparr>close_set := map_insert (close_set st) k end_node,
                          final_node := Some end_node\<rparr>"
  by (auto simp: AnalyticExpansion_def LoadRSPinCS_def Let_def
        split: option.splits sum.splits if_splits prod.splits)

lemma loop_body_again:
  assumes "loop_body c e bounds obstacles end_node st = Inr (False, st')"
  shows "\<exists>current. open_set st (fst (pq_top (open_pq st))) = Some current
     \<and> expand c e bounds obstacles end_node current [0..<next_node_num c]
         (st\<lparr>open_pq := pq_pop (open_pq st),
             close_set := map_insert (close_set st) (GetIndex current) current\<rparr>) = Inr st'"
  using assms
  by (auto simp: loop_body_def Let_def split: option.splits sum.splits if_splits prod.splits
        dest!: AnalyticExpansion_not_reached)

lemma loop_body_break:
  assumes "loop_body c e bounds obstacles end_node st = Inr (True, st')"
  shows "\<exists>k n. st' = st\<lparr>open_pq := pq_pop (open_pq st),
                       close_set := map_insert (close_set st) k n,
                       final_node := Some n\<rparr>"
proof -
  from assms obtain current where
    "AnalyticExpansion c e bounds obstacles current (st\<lparr>open_pq := pq_pop (open_pq st)\<rparr>)
       = Inr (True, st')"
    by (auto simp: loop_body_def Let_def split: option.splits sum.splits if_splits prod.splits)
  from AnalyticExpansion_reached [OF this] show ?thesis by auto
qed

lemma pose_start_of [simp]: "pose (start_of e bounds p) = p"
  by (simp add: start_of_def new_Node3d_def pose_def)

lemma Plan_setup_coherent:
  "Plan_setup e bounds obstacles s g = Inr st \<Longrightarrow> coherent st \<and> costs_monotone st"
  by (auto simp: Plan_setup_def Let_def cleared_def map_insert_def pq_push_def coherent_def
        costs_monotone_def start_of_def new_Node3d_def
      split: if_splits option.splits)

lemma loop_body_coherent:
  assumes "loop_body c e bounds obstacles end_node st = Inr (False, st')" "coherent st"
    "open_pq st \<noteq> []"
  shows "coherent st'"
proof -
  from loop_body_again [OF assms(1)] obtain current where
    cur: "open_set st (fst (pq_top (open_pq st))) = Some current"
    and ex: "expand c e bounds obstacles end_node current [0..<next_node_num c]
         (st\<lparr>open_pq := pq_pop (open_pq st),
             close_set := map_insert (close_set st) (GetIndex current) current\<rparr>) = Inr st'"
    by blast
  from cur assms(2) have idx: "GetIndex current = fst (pq_top (open_pq st))"
    by (simp add: coherent_def)
  have "coherent (st\<lparr>open_pq := pq_pop (open_pq st),
             close_set := map_insert (close_set st) (GetIndex current) current\<rparr>)"
    using assms(2) cur idx pq_pop_subset [of "open_pq st"]
    by (auto simp: coherent_def map_insert_apply split: if_splits)
  with ex show ?thesis by (rule expand_coherent)
qed

lemma loop_body_monotone:
  assumes "loop_body c e bounds obstacles end_node st = Inr (False, st')" "costs_monotone st"
    "nonneg_penalties c"
  shows "costs_monotone st'"
proof -
  from loop_body_again [OF assms(1)] obtain current where
    cur: "open_set st (fst (pq_top (open_pq st))) = Some current"
    and ex: "expand c e bounds obstacles end_node current [0..<next_node_num c]
         (st\<lparr>open_pq := pq_pop (open_pq st),
             close_set := map_insert (close_set st) (GetIndex current) current\<rparr>) = Inr st'"
    by blast
  from cur assms(2) have "chain_monotone current" by (simp add: costs_monotone_def)
  moreover have "costs_monotone (st\<lparr>open_pq := pq_pop (open_pq st),
             close_set := map_insert (close_set st) (GetIndex current) current\<rparr>)"
    using assms(2) by (simp add: costs_monotone_def)
  ultimately show ?thesis using ex assms(3) expand_monotone by blast
qed

lemma loop_head_coherent:
  "loop_head c e bounds obstacles s g st \<Longrightarrow> coherent st"
  by (induction rule: loop_head.induct) (auto dest: Plan_setup_coherent loop_body_coherent)

lemma loop_head_monotone:
  "loop_head c e bounds obstacles s g st \<Longrightarrow> nonneg_penalties c \<Longrightarrow> costs_monotone st"
  by (induction rule: loop_head.induct) (auto dest: Plan_setup_coherent loop_body_monotone)

lemma integrate_lengths:
  "integrate c wrap steering d bound i s = s' \<Longrightarrow>
     length (fst s') = length (fst s) + (nat \<lceil>bound\<rceil> - i)
     \<and> length (fst (snd s')) = length (fst (snd s)) + (nat \<lceil>bound\<rceil> - i)
     \<and> length (fst (snd (snd s'))) = length (fst (snd (snd s))) + (nat \<lceil>bound\<rceil> - i)"
proof (induction c wrap steering d bound i s arbitrary: s' rule: integrate.induct)
  case (1 c wrap steering d bound i s)
  show ?case
  proof (cases "real i < bound")
    case True
    then have lt: "i < nat \<lceil>bound\<rceil>" by linarith
    obtain ixs iys iphis lx ly lphi where s: "s = (ixs, iys, iphis, lx, ly, lphi)"
      by (cases s) auto
    from "1.prems" True s have
      "integrate c wrap steering d bound (Suc i)
         (ixs @ [lx + d * cos lphi], iys @ [ly + d * sin lphi],
          iphis @ [wrap (lphi + d / wheel_base c * tan steering)],
          lx + d * cos lphi, ly + d * sin lphi,
          wrap (lphi + d / wheel_base c * tan steering)) = s'"
      by (simp add: integrate.simps [of c wrap steering d bound i] Let_def)
    from "1.IH" [OF True s [symmetric] refl refl refl refl refl refl refl this] lt s
    show ?thesis by (simp; intro conjI; linarith)
  next
    case False
    then have "nat \<lceil>bound\<rceil> \<le> i" by linarith
    with False "1.prems" show ?thesis
      by (simp add: integrate.simps [of c wrap steering d bound i])
  qed
qed

lemma GetXs_set [simp]:
  "GetXs (SetSteer s n) = GetXs n" "GetXs (SetDirec d n) = GetXs n" "GetXs (SetPre p n) = GetXs n"
  "GetYs (SetSteer s n) = GetYs n" "GetYs (SetDirec d n) = GetYs n" "GetYs (SetPre p n) = GetYs n"
  "GetPhis (SetSteer s n) = GetPhis n" "GetPhis (SetDirec d n) = GetPhis n"
  "GetPhis (SetPre p n) = GetPhis n"
  by (cases n; simp)+

section \<open>The concrete inputs, evaluated\<close>

lemma sqrt2_lt_2: "sqrt 2 < 2"
  by (rule real_less_lsqrt) simp_all

lemma rail_world_simps:
  "NodeIndex rail_world bounds px py pphi = nat \<lfloor>2 * (px - bounds ! 0)\<rfloor>"
  "HasOverlap rail_world px py pphi b = (fst b \<le> px \<and> px \<le> snd b)"
  "ShortestRSP rail_world p q = Some (straight_rsp p q)"
  "NormalizeAngle rail_world = (\<lambda>a. a)"
  "double_arc_by_step rail_world r s = Finite (6369051672525773 / 4503599627370496 * r / s)"
  "fresh_direc rail_world = True" "fresh_steer rail_world = 0"
  "fresh_traj_cost rail_world = 0" "fresh_heu_cost rail_world = 0"
  by (simp_all add: rail_world_def)

lemma rail_config_simps:
  "next_node_num rail_config = 4" "max_steer rail_config = 0" "step_size rail_config = 1"
  "xy_grid_resolution rail_config = 1" "back_penalty rail_config = 2"
  "gear_switch_penalty rail_config = 3" "steer_penalty rail_config = 1"
  "steer_change_penalty rail_config = 1" "delta_t rail_config = 1" "wheel_base rail_config = 1"
  by (simp_all add: rail_config_def)

lemma rail_origin_fields:
  "GetX rail_origin = 0" "GetY rail_origin = 0" "GetPhi rail_origin = 0"
  "GetIndex rail_origin = 20" "GetDirec rail_origin = True" "GetSteer rail_origin = 0"
  "GetTrajCost rail_origin = 0" "GetHeuCost rail_origin = 0" "pose rail_origin = (0, 0, 0)"
  "GetPreNode rail_origin = None"
  by (simp_all add: rail_origin_def pose_def)

lemma rail_forward_fields:
  "GetX rail_forward = 2" "GetY rail_forward = 0" "GetPhi rail_forward = 0"
  "GetIndex rail_forward = 24" "GetDirec rail_forward = True" "GetSteer rail_forward = 0"
  "GetTrajCost rail_forward = 1" "GetHeuCost rail_forward = 1 / 2"
  "pose rail_forward = (2, 0, 0)" "GetPreNode rail_forward = Some rail_origin"
  by (simp_all add: rail_forward_def pose_def)

lemma start_of_rail: "start_of rail_world rail_bounds (0, 0, 0) = rail_origin"
  by (simp add: start_of_def new_Node3d_def rail_world_simps rail_bounds_def rail_origin_def)

lemma goal_of_rail:
  "start_of rail_world rail_bounds (5 / 2, 0, 0) =
     Node3d (5 / 2) 0 0 [5 / 2] [0] [0] 25 None True 0 0 0"
  by (simp add: start_of_def new_Node3d_def rail_world_simps rail_bounds_def)

lemma rail_setup:
  "Plan_setup rail_world rail_bounds blocked (0, 0, 0) (5 / 2, 0, 0) = Inr rail_first"
  by (simp add: Plan_setup_def Let_def ValidityCheck_def blocked_def
        rail_world_simps cleared_def map_insert_def pq_push_def rail_first_def GetCost_def
        start_of_rail rail_origin_fields)

lemma rail_steering: "primitive_steering rail_config k = 0"
  by (simp add: primitive_steering_def rail_config_simps)

lemma rail_integrate:
  "integrate rail_config (\<lambda>a. a) 0 d (6369051672525773 / 4503599627370496) 0
     ([0], [0], [0], 0, 0, 0) =
     ([0, d, 2 * d], [0, 0, 0], [0, 0, 0], 2 * d, 0, 0)"
  by (simp add: integrate.simps [of _ _ _ _ _ _ "(a, b)" for a b] rail_config_simps Let_def)

lemma rail_next_forward:
  "k < 2 \<Longrightarrow> Next_node_generator rail_config rail_world rail_bounds rail_origin k =
     Inr (Node3d 2 0 0 [0, 1, 2] [0, 0, 0] [0, 0, 0] 24 (Some rail_origin) True 0 0 0)"
  by (simp add: Next_node_generator_def Let_def rail_steering primitive_distance_def
        rail_config_simps rail_world_simps rail_origin_fields primitive_node_def
        rail_integrate new_Node3d_def rail_bounds_def)

lemma rail_next_backward:
  "2 \<le> k \<Longrightarrow> Next_node_generator rail_config rail_world rail_bounds rail_origin k =
     Inr (Node3d (- 2) 0 0 [0, - 1, - 2] [0, 0, 0] [0, 0, 0] 16 (Some rail_origin) False 0 0 0)"
  by (simp add: Next_node_generator_def Let_def rail_steering primitive_distance_def
        rail_config_simps rail_world_simps rail_origin_fields primitive_node_def
        rail_integrate new_Node3d_def rail_bounds_def)

lemma rail_pass_1:
  "loop_body rail_config rail_world rail_bounds blocked
     (start_of rail_world rail_bounds (5 / 2, 0, 0)) rail_first = Inr (False, rail_second)"
  by (simp add: loop_body_def Let_def rail_first_def pq_top_def pq_pop_def AnalyticExpansion_def
      rail_origin_fields RSPCheck_def straight_rsp_def ValidityCheck_def blocked_def rail_world_simps
      map_insert_def rail_config_simps upt_rec [of _ "numeral n" for n]
      try_successor_def rail_next_forward rail_next_backward pose_def
      ReedSheppHeuristic_def goal_of_rail
      CalculateNodeCost_def piecewise_cost_def CalculateRSPCost_def
      pq_push_def GetCost_def rail_second_def rail_forward_def rail_backward_def)

lemma sqrt2_gt_1: "1 < sqrt 2" by simp

lemma rail_floor: "\<lfloor>arc rail_config / step_size rail_config\<rfloor> = 1"
  using sqrt2_lt_2 sqrt2_gt_1 by (simp add: arc_def rail_config_simps floor_eq_iff)

lemma rail_floor_term: "nat \<lfloor>arc rail_config / step_size rail_config\<rfloor> + 1 = 2"
  by (simp add: rail_floor)

lemma rail_terminal_fields:
  "GetPreNode rail_terminal = Some rail_forward" "GetTrajCost rail_terminal = 1 / 2"
  "GetIndex rail_terminal = 25"
  by (simp_all add: rail_terminal_def)

lemma rail_pass_2:
  "loop_body rail_config rail_world rail_bounds blocked
     (start_of rail_world rail_bounds (5 / 2, 0, 0)) rail_second =
   Inr (True, rail_second\<lparr>open_pq := [(16, 19 / 2)],
                close_set := [20 \<mapsto> rail_origin, 25 \<mapsto> rail_terminal],
                final_node := Some rail_terminal\<rparr>)"
  by (simp add: loop_body_def Let_def rail_second_def pq_top_def pq_pop_def AnalyticExpansion_def
      rail_forward_fields RSPCheck_def straight_rsp_def ValidityCheck_def blocked_def rail_world_simps
      map_insert_def rail_config_simps LoadRSPinCS_def CalculateRSPCost_def new_Node3d_def
      rail_bounds_def rail_terminal_def)

lemma rail_search:
  "search rail_config rail_world rail_bounds blocked
     (start_of rail_world rail_bounds (5 / 2, 0, 0)) (Suc (Suc fuel)) rail_first =
   Inr (rail_second\<lparr>open_pq := [(16, 19 / 2)],
                close_set := [20 \<mapsto> rail_origin, 25 \<mapsto> rail_terminal],
                final_node := Some rail_terminal\<rparr>)"
proof -
  have 1: "open_pq rail_first \<noteq> []" "open_pq rail_second \<noteq> []"
    by (simp_all add: rail_first_def rail_second_def)
  show ?thesis
    by (simp add: 1 rail_pass_1 rail_pass_2)
qed

lemma rail_trace:
  "trace_back rail_terminal ([], [], []) =
     Some ([5 / 2, 9 / 4, 2, 1, 0], [0, 0, 0, 0, 0], [0, 0, 0, 0, 0])"
  by (simp add: rail_terminal_def rail_forward_def rail_origin_def)

lemma rail_result:
  "GetResult rail_config rail_terminal fresh_result =
     Inr (True, \<lparr>res_x = [5 / 2, 9 / 4, 2, 1, 0], res_y = [0, 0, 0, 0, 0],
                 res_phi = [0, 0, 0, 0, 0], res_v = [- (1 / 4), - (1 / 4), - 1, - 1, 0],
                 res_a = [0, - (3 / 4), 0, 1], res_steer = [0, 0, 0, 0]\<rparr>)"
  by (simp add: GetResult_def rail_trace GenerateSpeedAcceleration_def fresh_result_def
        rail_config_simps Let_def upt_rec [of _ "numeral n" for n] size_t_sub_def nth_Cons')





lemma rail_loop_head_first:
  "loop_head rail_config rail_world rail_bounds blocked (0, 0, 0) (5 / 2, 0, 0) rail_first"
  by (rule loop_head.first) (rule rail_setup)

lemma rail_queue: "open_pq rail_first \<noteq> []" "open_pq rail_second \<noteq> []"
  by (simp_all add: rail_first_def rail_second_def)

lemma rail_loop_head_second:
  "loop_head rail_config rail_world rail_bounds blocked (0, 0, 0) (5 / 2, 0, 0) rail_second"
  by (rule loop_head.again [OF rail_loop_head_first rail_queue(1) rail_pass_1])

lemma fault_of_Next_node_generator:
  "Next_node_generator c e bounds current i = Inl f \<Longrightarrow> f \<noteq> NullDeref"
  by (auto simp: Next_node_generator_def Let_def split: machine_double.splits if_splits)

lemma fault_of_expand:
  "expand c e bounds obstacles end_node current is st = Inl f \<Longrightarrow> f \<noteq> NullDeref"
  by (induction "is" arbitrary: st)
     (auto simp: try_successor_def Let_def ReedSheppHeuristic_def CalculateNodeCost_def
        CalculateRSPCost_def split: sum.splits if_splits option.splits
        dest: fault_of_Next_node_generator)

lemma fault_of_RSPCheck_loop:
  "RSPCheck_loop e obstacles pxs pys pphis = Inl f \<Longrightarrow> f = OutOfRange"
  by (induction e obstacles pxs pys pphis rule: RSPCheck_loop.induct) (auto split: if_splits)

lemma fault_of_AnalyticExpansion:
  "AnalyticExpansion c e bounds obstacles current st = Inl f \<Longrightarrow>
     ReedSheppPath_cache st (GetIndex current) \<noteq> None \<Longrightarrow> f = OutOfRange"
  by (auto simp: AnalyticExpansion_def RSPCheck_def LoadRSPinCS_def CalculateRSPCost_def Let_def
        split: option.splits sum.splits if_splits dest: fault_of_RSPCheck_loop)

lemma rail_plan:
  "Plan rail_config rail_world 2 0 0 0 (5 / 2) 0 0 rail_bounds blocked fresh_result =
     Inr (True,
          \<lparr>res_x = [5 / 2, 9 / 4, 2, 1, 0], res_y = [0, 0, 0, 0, 0],
           res_phi = [0, 0, 0, 0, 0], res_v = [- (1 / 4), - (1 / 4), - 1, - 1, 0],
           res_a = [0, - (3 / 4), 0, 1], res_steer = [0, 0, 0, 0]\<rparr>,
          rail_second\<lparr>open_pq := [(16, 19 / 2)],
                close_set := [20 \<mapsto> rail_origin, 25 \<mapsto> rail_terminal],
                final_node := Some rail_terminal\<rparr>)"
  using rail_search [of 0]
  by (simp add: Plan_def rail_setup rail_result numeral_2_eq_2)

section \<open>The claims\<close>

text \<open>
  C1. The claim: the result arrays of a successful \<open>Plan\<close> start at the start pose and
  end at the goal pose. \<^verbatim>\<open>GetResult\<close> walks from the final node to the start node,
  appends each node's samples reversed and the start pose last, and never turns the
  whole array round: from \<open>(0, 0, 0)\<close> to \<open>(10, 0, 0)\<close> with no obstacle and a Reeds-Shepp
  path sampled at \<open>x = 0, 5, 10\<close>, \<open>Plan\<close> succeeds with \<open>x = [10, 5, 0]\<close>, the goal first
  and the start last, and with the speeds of a car driving backwards.
\<close>

theorem Plan_result_runs_backwards:
  "plan_ok (Plan rail_config rail_world 1 0 0 0 10 0 0 [- 5, 15, - 5, 5] [] fresh_result)
     = Some True
   \<and> plan_result (Plan rail_config rail_world 1 0 0 0 10 0 0 [- 5, 15, - 5, 5] [] fresh_result)
     = Some \<lparr>res_x = [10, 5, 0], res_y = [0, 0, 0], res_phi = [0, 0, 0],
             res_v = [- 5, - 5, 0], res_a = [0, 5], res_steer = [0, 0]\<rparr>"
  by (simp add: Plan_def Plan_setup_def Let_def ValidityCheck_def start_of_def new_Node3d_def
        rail_world_simps cleared_def map_insert_def pq_push_def GetCost_def
        pose_def loop_body_def pq_top_def pq_pop_def AnalyticExpansion_def RSPCheck_def
        straight_rsp_def LoadRSPinCS_def CalculateRSPCost_def GetResult_def
        GenerateSpeedAcceleration_def fresh_result_def rail_config_simps
        upt_rec [of _ "numeral n" for n] size_t_sub_def nth_Cons')

text \<open>
  C2. The claim: the length term of \<^verbatim>\<open>CalculateRSPCost\<close> charges a reverse segment
  \<open>L < 0\<close> with \<open>(- L) * back_penalty\<close>. The source adds \<open>L * back_penalty\<close>, which is
  negative: for the single reverse segment of length \<open>1\<close> and \<open>back_penalty = 2\<close> the
  computed cost is \<open>- 2\<close>, where the claimed length term is \<open>2\<close>.
\<close>

theorem reverse_segment_cost:
  "CalculateRSPCost rail_config (straight_rsp (1, 0, 0) (0, 0, 0)) = Inr (- 2)
   \<and> rsp_length_loop rail_config [- 1] 0 = - 2
   \<and> spec_length_term rail_config [- 1] = 2"
  by (simp add: CalculateRSPCost_def straight_rsp_def spec_length_term_def rail_config_simps)

text \<open>
  C3, as amended. Nothing is ever removed from the open map. After a pass of the search
  loop that expands the popped node, the popped key is in the open map and in the closed
  map; the open map keeps the entry of every key it had; and for a key that was in the
  closed map, the closed entry and the open entry (present or absent) are what they
  were: no node enters the open map under a closed key.
\<close>

theorem closed_keys_stay_open:
  assumes "loop_head c e bounds obstacles s g st" "open_pq st \<noteq> []"
    and "loop_body c e bounds obstacles (start_of e bounds g) st = Inr (reached, st')"
  shows "(\<not> reached \<longrightarrow>
            open_set st' (fst (pq_top (open_pq st))) \<noteq> None
            \<and> close_set st' (fst (pq_top (open_pq st))) \<noteq> None)
     \<and> (\<forall>k. open_set st k \<noteq> None \<longrightarrow> open_set st' k = open_set st k)
     \<and> (\<forall>k. close_set st k \<noteq> None \<longrightarrow>
            close_set st' k = close_set st k \<and> open_set st' k = open_set st k)"
proof (cases reached)
  case True
  with assms(3) have "loop_body c e bounds obstacles (start_of e bounds g) st = Inr (True, st')"
    by simp
  from loop_body_break [OF this]
  obtain k n where "st' = st\<lparr>open_pq := pq_pop (open_pq st),
                       close_set := map_insert (close_set st) k n,
                       final_node := Some n\<rparr>"
    by blast
  with True show ?thesis by (simp add: map_insert_apply)
next
  case False
  from assms(1) have coh: "coherent st" by (rule loop_head_coherent)
  from False assms(3)
  have "loop_body c e bounds obstacles (start_of e bounds g) st = Inr (False, st')" by simp
  from loop_body_again [OF this]
  obtain current where
    cur: "open_set st (fst (pq_top (open_pq st))) = Some current"
    and ex: "expand c e bounds obstacles (start_of e bounds g) current [0..<next_node_num c]
         (st\<lparr>open_pq := pq_pop (open_pq st),
             close_set := map_insert (close_set st) (GetIndex current) current\<rparr>) = Inr st'"
    by blast
  from cur coh have idx: "GetIndex current = fst (pq_top (open_pq st))"
    by (simp add: coherent_def)
  have closed: "close_set st' = map_insert (close_set st) (GetIndex current) current"
    using expand_frame [OF ex] by simp
  have opened: "\<And>k. open_set st k \<noteq> None \<Longrightarrow> open_set st' k = open_set st k"
    using expand_frame [OF ex] by simp
  have kept: "\<And>k. close_set st k \<noteq> None \<Longrightarrow> open_set st' k = open_set st k"
    using expand_frame [OF ex] by (simp add: map_insert_apply)
  from cur opened [of "fst (pq_top (open_pq st))"]
  have 1: "open_set st' (fst (pq_top (open_pq st))) \<noteq> None" by simp
  have 2: "close_set st' (fst (pq_top (open_pq st))) \<noteq> None"
    by (simp add: closed idx map_insert_apply)
  from 1 2 opened kept closed show ?thesis by (simp add: map_insert_apply)
qed

theorem closed_keys_stay_open_witness:
  "open_set rail_second (fst (pq_top (open_pq rail_first))) \<noteq> None
   \<and> close_set rail_second (fst (pq_top (open_pq rail_first))) \<noteq> None
   \<and> open_set rail_second 20 = open_set rail_first 20"
proof -
  have "open_set rail_first 20 \<noteq> None" by (simp add: rail_first_def)
  with closed_keys_stay_open [OF rail_loop_head_first rail_queue(1) rail_pass_1]
  show ?thesis by simp
qed

text \<open>
  C3 as stated fails: on the rail, after the first pass of the loop, the key \<open>20\<close> of
  the start node is in the open map and in the closed map.
\<close>

theorem expanded_key_in_both_maps:
  "Plan_setup rail_world rail_bounds blocked (0, 0, 0) (5 / 2, 0, 0) = Inr rail_first
   \<and> loop_body rail_config rail_world rail_bounds blocked
        (start_of rail_world rail_bounds (5 / 2, 0, 0)) rail_first = Inr (False, rail_second)
   \<and> open_set rail_second 20 = Some rail_origin
   \<and> close_set rail_second 20 = Some rail_origin"
  by (simp add: rail_setup rail_pass_1) (simp add: rail_second_def)

text \<open>
  C4, as amended. With a non-negative grid resolution, non-negative penalties and a
  number of primitives for which the divisor \<open>next_node_num / 2 - 1\<close> of the steering is
  not zero, at every test of the search loop \<open>traj_cost\<close> is non-decreasing along the
  parent chain of every node of the open map and of the closed map: the start node and
  the nodes of the expander.
\<close>

theorem expander_costs_monotone:
  assumes "loop_head c e bounds obstacles s g st" "nonneg_penalties c"
    and "size_t_sub (next_node_num c div 2) 1 \<noteq> 0"
  shows "(\<forall>k n. open_set st k = Some n \<longrightarrow> chain_monotone n)
     \<and> (\<forall>k n. close_set st k = Some n \<longrightarrow> chain_monotone n)"
proof -
  from loop_head_coherent [OF assms(1)]
  have sub: "\<And>k n. close_set st k = Some n \<Longrightarrow> open_set st k = Some n"
    by (simp add: coherent_def)
  from loop_head_monotone [OF assms(1,2)]
  have mono: "\<And>k n. open_set st k = Some n \<Longrightarrow> chain_monotone n"
    by (simp add: costs_monotone_def)
  from sub mono show ?thesis by blast
qed

theorem expander_costs_monotone_witness:
  "nonneg_penalties rail_config \<and> size_t_sub (next_node_num rail_config div 2) 1 = 1
   \<and> chain_monotone rail_forward \<and> chain_monotone rail_backward
   \<and> GetTrajCost rail_origin \<le> GetTrajCost rail_backward"
proof -
  have h: "nonneg_penalties rail_config"
    by (simp add: nonneg_penalties_def rail_config_simps)
  have d: "size_t_sub (next_node_num rail_config div 2) 1 = 1"
    by (simp add: size_t_sub_def rail_config_simps)
  then have d': "size_t_sub (next_node_num rail_config div 2) 1 \<noteq> 0" by simp
  have "open_set rail_second 24 = Some rail_forward" "open_set rail_second 16 = Some rail_backward"
    by (simp_all add: rail_second_def)
  with expander_costs_monotone [OF rail_loop_head_second h d']
  have "chain_monotone rail_forward" "chain_monotone rail_backward" by blast+
  with h d show ?thesis by (simp add: rail_backward_def)
qed

text \<open>
  C4 as stated fails for the terminal node, whose \<open>traj_cost\<close> is the cost of the
  Reeds-Shepp path alone: on the rail, \<open>Plan\<close> ends with a terminal node of cost \<open>1/2\<close>
  whose parent has cost \<open>1\<close>.
\<close>

theorem terminal_cost_below_parent:
  "plan_ok (Plan rail_config rail_world 2 0 0 0 (5 / 2) 0 0 rail_bounds blocked fresh_result)
     = Some True
   \<and> plan_final (Plan rail_config rail_world 2 0 0 0 (5 / 2) 0 0 rail_bounds blocked fresh_result)
     = Some rail_terminal
   \<and> GetPreNode rail_terminal = Some rail_forward
   \<and> GetTrajCost rail_terminal = 1 / 2 \<and> GetTrajCost rail_forward = 1"
  by (simp add: rail_plan rail_terminal_fields rail_forward_fields)

text \<open>
  C5, as amended. Let \<open>q\<close> be the \<^verbatim>\<open>double\<close> the machine obtains for \<open>arc / step_size\<close>, the
  value the integration loop compares its counter with. When \<open>q\<close> is a number and at most
  \<open>2^53\<close>, the loop runs while \<open>i < q\<close>, that is \<open>\<lceil>q\<rceil>\<close> times (none when \<open>q\<close> is not
  positive), the node is returned, and each of its sample arrays has \<open>\<lceil>q\<rceil> + 1\<close>
  entries.
\<close>

theorem substeps_round_up:
  assumes "double_arc_by_step e (xy_grid_resolution c) (step_size c) = Finite q"
    and "q \<le> 2 ^ 53"
  shows "\<exists>n. Next_node_generator c e bounds current_node k = Inr n
     \<and> length (GetXs n) = nat \<lceil>q\<rceil> + 1
     \<and> length (GetYs n) = nat \<lceil>q\<rceil> + 1
     \<and> length (GetPhis n) = nat \<lceil>q\<rceil> + 1"
proof -
  obtain ixs iys iphis lx ly lphi where
    s': "integrate c (NormalizeAngle e) (primitive_steering c k) (primitive_distance c k) q 0
           ([GetX current_node], [GetY current_node], [GetPhi current_node],
            GetX current_node, GetY current_node, GetPhi current_node)
         = (ixs, iys, iphis, lx, ly, lphi)"
    by (metis prod_cases3)
  from integrate_lengths [OF s'] s' assms show ?thesis
    by (simp add: Next_node_generator_def Let_def primitive_node_def new_Node3d_def)
qed

theorem substeps_round_up_witness:
  "\<exists>n. Next_node_generator rail_config rail_world rail_bounds rail_origin 3 = Inr n
     \<and> length (GetXs n) = 3 \<and> length (GetYs n) = 3 \<and> length (GetPhis n) = 3"
proof -
  have q: "double_arc_by_step rail_world (xy_grid_resolution rail_config) (step_size rail_config)
             = Finite (6369051672525773 / 4503599627370496)"
    by (simp add: rail_world_simps rail_config_simps)
  have le: "(6369051672525773 / 4503599627370496 :: real) \<le> 2 ^ 53" by simp
  have c: "\<lceil>6369051672525773 / 4503599627370496 :: real\<rceil> = 2"
    by (simp add: ceiling_eq_iff)
  from substeps_round_up [OF q le, of rail_bounds rail_origin 3] c
  show ?thesis by simp
qed

text \<open>
  C5 as stated fails: with grid resolution \<open>1\<close> and step size \<open>1\<close> the quotient is the
  \<^verbatim>\<open>double\<close> nearest to \<open>sqrt 2\<close>, the loop makes two passes and the node has three
  samples, where \<open>\<lfloor>arc / step_size\<rfloor> + 1\<close> is two, for the exact quotient and for the
  machine's.
\<close>

theorem substeps_not_floor:
  "Next_node_generator rail_config rail_world rail_bounds rail_origin 0
     = Inr (Node3d 2 0 0 [0, 1, 2] [0, 0, 0] [0, 0, 0] 24 (Some rail_origin) True 0 0 0)
   \<and> nat \<lfloor>arc rail_config / step_size rail_config\<rfloor> + 1 = 2
   \<and> double_arc_by_step rail_world (xy_grid_resolution rail_config) (step_size rail_config)
       = Finite (6369051672525773 / 4503599627370496)
   \<and> nat \<lfloor>6369051672525773 / 4503599627370496 :: real\<rfloor> + 1 = 2"
proof -
  have 1: "Next_node_generator rail_config rail_world rail_bounds rail_origin 0
     = Inr (Node3d 2 0 0 [0, 1, 2] [0, 0, 0] [0, 0, 0] 24 (Some rail_origin) True 0 0 0)"
    by (simp add: rail_next_forward)
  have 2: "double_arc_by_step rail_world (xy_grid_resolution rail_config)
             (step_size rail_config) = Finite (6369051672525773 / 4503599627370496)"
    by (simp add: rail_world_simps rail_config_simps)
  have 3: "nat \<lfloor>6369051672525773 / 4503599627370496 :: real\<rfloor> + 1 = 2"
    by simp
  from 1 rail_floor_term 2 3 show ?thesis by (intro conjI)
qed

text \<open>
  C6. \<^verbatim>\<open>CalculateNodeCost\<close> returns for every Reeds-Shepp path with at least one
  segment, and the node it returns has \<open>traj_cost\<close> equal to the parent's \<open>traj_cost\<close> plus
  the grid resolution (times \<open>back_penalty\<close> for a reverse node), plus
  \<open>gear_switch_penalty\<close> when the directions differ, plus \<open>steer_penalty * |steer|\<close>, plus
  \<open>steer_change_penalty * |steer - parent steer|\<close>.
\<close>

theorem CalculateNodeCost_traj_cost:
  "(segs_lengths p \<noteq> [] \<longrightarrow> (\<exists>n. CalculateNodeCost c current_node next_node p = Inr n))
   \<and> (\<forall>n. CalculateNodeCost c current_node next_node p = Inr n \<longrightarrow>
         GetTrajCost n = GetTrajCost current_node
           + ((if GetDirec next_node then xy_grid_resolution c
               else xy_grid_resolution c * back_penalty c)
              + (if GetDirec current_node \<noteq> GetDirec next_node then gear_switch_penalty c else 0)
              + steer_penalty c * \<bar>GetSteer next_node\<bar>
              + steer_change_penalty c * \<bar>GetSteer next_node - GetSteer current_node\<bar>))"
  by (auto simp: CalculateNodeCost_def CalculateRSPCost_def piecewise_cost_def Let_def
        split: sum.splits if_splits)

theorem CalculateNodeCost_traj_cost_witness:
  "\<exists>n. CalculateNodeCost rail_config rail_forward rail_backward
          (straight_rsp (- 2, 0, 0) (5 / 2, 0, 0)) = Inr n \<and> GetTrajCost n = 6"
proof -
  have seg: "segs_lengths (straight_rsp (- 2, 0, 0) (5 / 2, 0, 0)) \<noteq> []"
    by (simp add: straight_rsp_def)
  from CalculateNodeCost_traj_cost [of "straight_rsp (- 2, 0, 0) (5 / 2, 0, 0)" rail_config
      rail_forward rail_backward] seg
  show ?thesis
    by (auto simp: rail_config_simps rail_forward_def rail_backward_def)
qed







text \<open>
  C9. When the start pose or the goal pose fails the validity check, \<open>Plan\<close> returns false
  for every bound on the loop, hands the result object back as it received it, and leaves
  the containers as cleared at entry: the open set and the queue were never loaded, so
  the loop was not entered.
\<close>

theorem Plan_rejects_collision:
  assumes "\<not> ValidityCheck e obstacles (sx, sy, sphi) \<or> \<not> ValidityCheck e obstacles (ex, ey, ephi)"
  shows "Plan c e fuel sx sy sphi ex ey ephi bounds obstacles result = Inr (False, result, cleared)"
  using assms by (auto simp: Plan_def Plan_setup_def Let_def)

theorem Plan_rejects_collision_witness:
  "\<not> ValidityCheck rail_world [(- 1, 1)] (0, 0, 0)
   \<and> Plan rail_config rail_world 5 0 0 0 10 0 0 rail_bounds [(- 1, 1)] fresh_result
       = Inr (False, fresh_result, cleared)"
proof -
  have h: "\<not> ValidityCheck rail_world [(- 1, 1)] (0, 0, 0)"
    by (simp add: ValidityCheck_def rail_world_simps)
  from h Plan_rejects_collision [of rail_world "[(- 1, 1)]" 0 0 0 10 0 0 rail_config 5 rail_bounds fresh_result]
  show ?thesis by simp
qed

text \<open>
  C10. At every test of the search loop with a queue that is not empty, the open map
  holds a node under the key at the top of the queue and the cache holds a path under
  that node's index; the pass of the loop that follows does not dereference a null
  pointer.
\<close>

theorem popped_node_has_cached_path:
  assumes "loop_head c e bounds obstacles s g st" "open_pq st \<noteq> []"
  shows "(\<exists>n p. open_set st (fst (pq_top (open_pq st))) = Some n
            \<and> ReedSheppPath_cache st (GetIndex n) = Some p)
     \<and> loop_body c e bounds obstacles (start_of e bounds g) st \<noteq> Inl NullDeref"
proof -
  from assms(1) have coh: "coherent st" by (rule loop_head_coherent)
  from pq_top_mem [OF assms(2)] coh obtain n where
    n: "open_set st (fst (pq_top (open_pq st))) = Some n"
    by (auto simp: coherent_def)
  with coh have idx: "GetIndex n = fst (pq_top (open_pq st))" by (simp add: coherent_def)
  from n coh obtain p where p: "ReedSheppPath_cache st (fst (pq_top (open_pq st))) = Some p"
    by (auto simp: coherent_def)
  have "loop_body c e bounds obstacles (start_of e bounds g) st \<noteq> Inl NullDeref"
  proof
    assume bad: "loop_body c e bounds obstacles (start_of e bounds g) st = Inl NullDeref"
    show False
    proof (cases "AnalyticExpansion c e bounds obstacles n (st\<lparr>open_pq := pq_pop (open_pq st)\<rparr>)")
      case (Inl f)
      with p idx fault_of_AnalyticExpansion [OF Inl] have "f = OutOfRange" by simp
      with bad n Inl show False by (simp add: loop_body_def Let_def)
    next
      case (Inr res)
      with bad n show False
        by (auto simp: loop_body_def Let_def split: prod.splits if_splits sum.splits
              dest: fault_of_expand)
    qed
  qed
  with n p idx show ?thesis by simp
qed

theorem popped_node_has_cached_path_witness:
  "(\<exists>n p. open_set rail_second (fst (pq_top (open_pq rail_second))) = Some n
            \<and> ReedSheppPath_cache rail_second (GetIndex n) = Some p)
   \<and> loop_body rail_config rail_world rail_bounds blocked
        (start_of rail_world rail_bounds (5 / 2, 0, 0)) rail_second \<noteq> Inl NullDeref"
  using popped_node_has_cached_path [OF rail_loop_head_second rail_queue(2)] .

end
